theory Spec2Isabelle
  imports Main
begin

section \<open>Numbers and strings of the platform\<close>

text \<open>
  The controller computes with JavaScript numbers. The model covers the integer-valued
  numbers and \<open>NaN\<close>: \<open>Fin n\<close> is the number \<open>n\<close> (exact in a double below \<open>2^53\<close> in
  magnitude; the model does not round), \<open>NaN\<close> is not-a-number. Fractions and the
  infinities are outside this number domain.
\<close>

datatype jsnum = Fin int | NaN

text \<open>\<open>a + b\<close>, \<open>a * b\<close>, \<open>a < b\<close> and \<open>a === b\<close> on numbers: \<open>NaN\<close> is contagious in
  arithmetic and every comparison with it is false.\<close>

fun js_add :: "jsnum \<Rightarrow> jsnum \<Rightarrow> jsnum" where
  "js_add (Fin a) (Fin b) = Fin (a + b)"
| "js_add _ _ = NaN"

fun js_mul :: "jsnum \<Rightarrow> jsnum \<Rightarrow> jsnum" where
  "js_mul (Fin a) (Fin b) = Fin (a * b)"
| "js_mul _ _ = NaN"

fun js_lt :: "jsnum \<Rightarrow> jsnum \<Rightarrow> bool" where
  "js_lt (Fin a) (Fin b) = (a < b)"
| "js_lt _ _ = False"

fun js_strict_eq :: "jsnum \<Rightarrow> jsnum \<Rightarrow> bool" where
  "js_strict_eq (Fin a) (Fin b) = (a = b)"
| "js_strict_eq _ _ = False"

text \<open>\<open>Math.floor(x / 60)\<close> and \<open>x % 60\<close>. The remainder of JavaScript takes the sign of the
  dividend.\<close>

fun js_floor_div60 :: "jsnum \<Rightarrow> jsnum" where
  "js_floor_div60 (Fin a) = Fin (a div 60)"
| "js_floor_div60 NaN = NaN"

fun js_rem60 :: "jsnum \<Rightarrow> jsnum" where
  "js_rem60 (Fin a) = Fin (if a < 0 then - ((- a) mod 60) else a mod 60)"
| "js_rem60 NaN = NaN"

text \<open>\<open>Number.prototype.toString\<close> on the numbers of the model: decimal digits, most
  significant first, with a minus sign for a negative number.\<close>

definition digitChar :: "nat \<Rightarrow> char" where
  "digitChar d = ''0123456789'' ! d"

fun decimal :: "nat \<Rightarrow> string" where
  "decimal n = (if n < 10 then [digitChar n] else decimal (n div 10) @ [digitChar (n mod 10)])"

declare decimal.simps [simp del]

fun js_toString :: "jsnum \<Rightarrow> string" where
  "js_toString (Fin a) = (if a < 0 then CHR ''-'' # decimal (nat (- a)) else decimal (nat a))"
| "js_toString NaN = ''NaN''"

text \<open>\<open>s.padStart(2, "0")\<close>.\<close>

definition padStart2 :: "string \<Rightarrow> string" where
  "padStart2 s = replicate (2 - length s) CHR ''0'' @ s"

text \<open>\<open>Number(s)\<close> on a string. ASCII white space around the literal is dropped, the
  empty literal is \<open>0\<close>, an optional sign followed by decimal digits is that integer.
  Literals with a fraction, an exponent or a radix prefix and \<open>Infinity\<close> denote numbers
  outside the number domain of the model; they are read as \<open>NaN\<close> here, as is everything
  that is not a numeric literal. The statements below about a time that parses are
  therefore stated for a parse result \<open>Fin n\<close>.\<close>

definition isWhite :: "char \<Rightarrow> bool" where
  "isWhite c = (c \<in> set [CHR '' '', CHR 0x09, CHR 0x0A, CHR 0x0B, CHR 0x0C, CHR 0x0D])"

definition trim :: "string \<Rightarrow> string" where
  "trim s = rev (dropWhile isWhite (rev (dropWhile isWhite s)))"

fun indexOf :: "'a list \<Rightarrow> 'a \<Rightarrow> nat option" where
  "indexOf [] x = None"
| "indexOf (y # ys) x = (if x = y then Some 0 else map_option Suc (indexOf ys x))"

definition digitVal :: "char \<Rightarrow> nat option" where
  "digitVal c = indexOf ''0123456789'' c"

fun digitsVal :: "nat \<Rightarrow> string \<Rightarrow> nat option" where
  "digitsVal acc [] = Some acc"
| "digitsVal acc (c # cs) =
     (case digitVal c of None \<Rightarrow> None | Some d \<Rightarrow> digitsVal (10 * acc + d) cs)"

definition unsignedVal :: "string \<Rightarrow> jsnum" where
  "unsignedVal s = (if s = [] then NaN
     else case digitsVal 0 s of None \<Rightarrow> NaN | Some n \<Rightarrow> Fin (int n))"

definition Number_str :: "string \<Rightarrow> jsnum" where
  "Number_str s =
     (case trim s of
        [] \<Rightarrow> Fin 0
      | c # cs \<Rightarrow>
          if c = CHR ''-'' then js_mul (Fin (- 1)) (unsignedVal cs)
          else if c = CHR ''+'' then unsignedVal cs
          else unsignedVal (c # cs))"

text \<open>\<open>s.split(":")\<close>: the pieces between the colons, at least one piece.\<close>

fun split_colon :: "string \<Rightarrow> string list" where
  "split_colon [] = [[]]"
| "split_colon (c # cs) =
     (if c = CHR '':'' then [] # split_colon cs
      else (case split_colon cs of p # ps \<Rightarrow> (c # p) # ps | [] \<Rightarrow> [[c]]))"

section \<open>The data of the controller\<close>

text \<open>The documents are read with \<open>lean()\<close> and have the fields that the handlers use:
  the times of a session are strings and its slot duration is a number.\<close>

record session =
  startTime :: string
  endTime :: string
  slotDurationMinutes :: jsnum

record dayTemplate =
  dayOfWeek :: jsnum
  isWorking :: bool
  sessions :: "session list"

text \<open>The handler reads \<open>doctor.scheduleTemplate?.find\<close>: the template may be absent.\<close>

record doctor =
  scheduleTemplate :: "dayTemplate list option"

record appointment =
  apptStartTime :: string

record slot =
  time :: string
  status :: string

section \<open>Slot generation\<close>

text \<open>\<open>const [h, m] = str.split(":").map(Number); h * 60 + m\<close>. A string without a
  colon leaves \<open>m\<close> undefined and the sum is \<open>NaN\<close>; pieces after the second are
  ignored.\<close>

definition parseMinutes :: "string \<Rightarrow> jsnum" where
  "parseMinutes str =
     (case map Number_str (split_colon str) of
        h # m # _ \<Rightarrow> js_add (js_mul h (Fin 60)) m
      | _ \<Rightarrow> NaN)"

text \<open>The slot label built in the loop body from \<open>startMin\<close>.\<close>

definition slotLabel :: "jsnum \<Rightarrow> string" where
  "slotLabel startMin =
     (let slotHour = padStart2 (js_toString (js_floor_div60 startMin));
          slotMin = padStart2 (js_toString (js_rem60 startMin))
      in slotHour @ '':'' @ slotMin)"

text \<open>The \<open>while (startMin < endMin)\<close> loop. It pushes a label and adds the slot
  duration; nothing in the loop bounds the number of rounds, so it is a partial function
  and \<open>None\<close> stands for a loop that never leaves.\<close>

partial_function (option) slotLoop ::
  "jsnum \<Rightarrow> jsnum \<Rightarrow> jsnum \<Rightarrow> string list \<Rightarrow> string list option" where
  "slotLoop startMin endMin dur generatedSlots =
     (if js_lt startMin endMin
      then slotLoop (js_add startMin dur) endMin dur (generatedSlots @ [slotLabel startMin])
      else Some generatedSlots)"

declare slotLoop.simps [code]

text \<open>The body of the \<open>forEach\<close> callback for one session.\<close>

definition sessionSlots :: "session \<Rightarrow> string list \<Rightarrow> string list option" where
  "sessionSlots s generatedSlots =
     slotLoop (parseMinutes (startTime s)) (parseMinutes (endTime s))
       (slotDurationMinutes s) generatedSlots"

text \<open>\<open>daySchedule.sessions.forEach\<close>, threading the array \<open>generatedSlots\<close>.\<close>

fun forEachSession :: "session list \<Rightarrow> string list \<Rightarrow> string list option" where
  "forEachSession [] generatedSlots = Some generatedSlots"
| "forEachSession (s # ss) generatedSlots =
     (case sessionSlots s generatedSlots of
        None \<Rightarrow> None
      | Some g \<Rightarrow> forEachSession ss g)"

definition generateSlots :: "dayTemplate \<Rightarrow> string list option" where
  "generateSlots daySchedule = forEachSession (sessions daySchedule) []"

text \<open>The number of rounds of the loop from \<open>a\<close> up to \<open>b\<close> in steps of \<open>d\<close>: the
  quotient \<open>(b - a) / d\<close> rounded up. It is used to state what the loop produces.\<close>

definition slotCount :: "int \<Rightarrow> int \<Rightarrow> int \<Rightarrow> nat" where
  "slotCount a b d = nat ((b - a + d - 1) div d)"


section \<open>Resolving the day and marking the slots\<close>

text \<open>\<open>Array.prototype.find\<close>: the first element that satisfies the callback.\<close>

fun array_find :: "('a \<Rightarrow> bool) \<Rightarrow> 'a list \<Rightarrow> 'a option" where
  "array_find p [] = None"
| "array_find p (x # xs) = (if p x then Some x else array_find p xs)"

text \<open>The callback \<open>(d) => d.dayOfWeek === dayIndex && d.isWorking\<close>.\<close>

definition worksOn :: "jsnum \<Rightarrow> dayTemplate \<Rightarrow> bool" where
  "worksOn dayIndex d = (js_strict_eq (dayOfWeek d) dayIndex \<and> isWorking d)"

definition resolveDaySchedule :: "doctor \<Rightarrow> jsnum \<Rightarrow> dayTemplate option" where
  "resolveDaySchedule doc dayIndex =
     (case scheduleTemplate doc of
        None \<Rightarrow> None
      | Some template \<Rightarrow> array_find (worksOn dayIndex) template)"

text \<open>\<open>Array.prototype.includes\<close> on strings.\<close>

fun array_includes :: "string list \<Rightarrow> string \<Rightarrow> bool" where
  "array_includes [] x = False"
| "array_includes (y # ys) x = (if y = x then True else array_includes ys x)"

definition annotateAvailability :: "string list \<Rightarrow> string list \<Rightarrow> slot list" where
  "annotateAvailability generatedSlots bookedTimes =
     map (\<lambda>s. \<lparr>time = s,
                status = (if array_includes bookedTimes s then ''booked'' else ''available'')\<rparr>)
       generatedSlots"

section \<open>The handler for the slots of a date\<close>

text \<open>The JSON answers of the handler: the HTTP status and the fields of the body, a
  field that the body does not carry being \<open>None\<close>.\<close>

record response =
  statusCode :: nat
  success :: bool
  message :: "string option"
  totalSlots :: "nat option"
  slots :: "slot list option"

text \<open>What an awaited query of a model gives: it is rejected or it resolves.\<close>

datatype 'a awaited = Rejected | Resolved 'a

definition dateRequired :: response where
  "dateRequired = \<lparr>statusCode = 400, success = False,
     message = Some ''Date is required as query parameter'', totalSlots = None, slots = None\<rparr>"

definition doctorNotFound :: response where
  "doctorNotFound = \<lparr>statusCode = 404, success = False,
     message = Some ''Doctor not found'', totalSlots = None, slots = None\<rparr>"

definition notAvailable :: response where
  "notAvailable = \<lparr>statusCode = 200, success = True,
     message = Some ''Doctor not available on selected date'', totalSlots = None,
     slots = Some []\<rparr>"

definition serverError :: response where
  "serverError = \<lparr>statusCode = 500, success = False,
     message = Some ''Server error'', totalSlots = None, slots = None\<rparr>"

text \<open>\<open>getDoctorSlotsForDate\<close>. Its inputs are the query parameter \<open>date\<close> (absent or a
  string), the outcome of \<open>Doctor.findById\<close>, the value of \<open>new Date(date).getDay()\<close> (a
  weekday \<open>0\<close> to \<open>6\<close> in the zone of the process, \<open>NaN\<close> for a date that does not parse)
  and the outcome of \<open>Appointment.find\<close> for the booked appointments of that doctor and
  date. A rejected query is caught and answered with 500. The result \<open>None\<close> is a handler
  that never answers.\<close>

definition getDoctorSlotsForDate ::
  "string option \<Rightarrow> doctor option awaited \<Rightarrow> jsnum \<Rightarrow> appointment list awaited \<Rightarrow>
   response option" where
  "getDoctorSlotsForDate dateParam doctorFound dayIndex bookedFound =
     (if dateParam = None \<or> dateParam = Some [] then Some dateRequired
      else case doctorFound of
        Rejected \<Rightarrow> Some serverError
      | Resolved None \<Rightarrow> Some doctorNotFound
      | Resolved (Some doc) \<Rightarrow>
          (case resolveDaySchedule doc dayIndex of
             None \<Rightarrow> Some notAvailable
           | Some daySchedule \<Rightarrow>
               (case generateSlots daySchedule of
                  None \<Rightarrow> None
                | Some generatedSlots \<Rightarrow>
                    (case bookedFound of
                       Rejected \<Rightarrow> Some serverError
                     | Resolved bookedAppointments \<Rightarrow>
                         (let bookedTimes = map apptStartTime bookedAppointments;
                              sl = annotateAvailability generatedSlots bookedTimes
                          in Some \<lparr>statusCode = 200, success = True, message = None,
                               totalSlots = Some (length sl), slots = Some sl\<rparr>)))))"

section \<open>The filters of the doctor search\<close>

record searchQuery =
  specialty :: "string option"
  city :: "string option"
  consultationType :: "string option"
  supportsEmergency :: "string option"
  lat :: "string option"
  lng :: "string option"
  radiusKm :: "string option"
  date :: "string option"

text \<open>The values stored in the filter object. The \<open>$near\<close> value keeps the three
  parameters \<open>lng\<close>, \<open>lat\<close> and \<open>radiusKm\<close> as they were sent: the coordinates and the
  distance are floating-point numbers of the platform.\<close>

datatype filterValue = StrV string | BoolV bool | NearV string string string

type_synonym filters = "string \<rightharpoonup> filterValue"

text \<open>The truth value of a query parameter in a condition: absent and empty are false.\<close>

fun truthy :: "string option \<Rightarrow> bool" where
  "truthy None = False"
| "truthy (Some s) = (s \<noteq> [])"

definition setWhenTruthy :: "string \<Rightarrow> string option \<Rightarrow> filters \<Rightarrow> filters" where
  "setWhenTruthy key param f =
     (case param of None \<Rightarrow> f | Some v \<Rightarrow> if v \<noteq> [] then f(key \<mapsto> StrV v) else f)"

definition setConsultationMode :: "string option \<Rightarrow> filters \<Rightarrow> filters" where
  "setConsultationMode ct f =
     (if ct = Some ''telemedicine'' then f(''consultationModes.telemedicine'' \<mapsto> BoolV True)
      else if ct = Some ''inClinic'' then f(''consultationModes.inClinic'' \<mapsto> BoolV True)
      else f)"

definition setEmergency :: "string option \<Rightarrow> filters \<Rightarrow> filters" where
  "setEmergency se f =
     (if se = Some ''true'' then f(''supportsEmergency'' \<mapsto> BoolV True) else f)"

definition setNear :: "string option \<Rightarrow> string option \<Rightarrow> string option \<Rightarrow> filters \<Rightarrow> filters" where
  "setNear la ln r f =
     (case (la, ln, r) of
        (Some a, Some n, Some k) \<Rightarrow>
          if a \<noteq> [] \<and> n \<noteq> [] \<and> k \<noteq> [] then f(''clinic.location'' \<mapsto> NearV n a k) else f
      | _ \<Rightarrow> f)"

text \<open>The filter object that \<open>searchDoctors\<close> hands to \<open>Doctor.find\<close>.\<close>

definition searchFilters :: "searchQuery \<Rightarrow> filters" where
  "searchFilters q =
     setNear (lat q) (lng q) (radiusKm q)
       (setEmergency (supportsEmergency q)
         (setConsultationMode (consultationType q)
           (setWhenTruthy ''clinic.city'' (city q)
             (setWhenTruthy ''specialties'' (specialty q)
               [''status'' \<mapsto> StrV ''active'',
                ''isAcceptingNewPatients'' \<mapsto> BoolV True]))))"

section \<open>The loop of one session\<close>

lemma slotCount_zero: "0 < d \<Longrightarrow> \<not> a < b \<Longrightarrow> slotCount a b d = 0"
proof -
  assume d: "0 < d" and ab: "\<not> a < b"
  have "(b - a + d - 1) div d \<le> (d - 1) div d"
    using d ab by (intro zdiv_mono1) auto
  also have "(d - 1) div d = 0" using d by simp
  finally show ?thesis by (simp add: slotCount_def)
qed

lemma slotCount_next:
  assumes "0 < d" "a < b"
  shows "slotCount a b d = Suc (slotCount (a + d) b d)"
proof -
  have "b - a + d - 1 = (b - (a + d) + d - 1) + d" by simp
  then have "(b - a + d - 1) div d = (b - (a + d) + d - 1) div d + 1"
    using assms(1) by (metis div_add_self2 less_irrefl)
  moreover have "0 \<le> (b - (a + d) + d - 1) div d"
    using assms by (simp add: pos_imp_zdiv_nonneg_iff)
  ultimately show ?thesis by (simp add: slotCount_def nat_add_distrib)
qed

lemma slotCount_iff: "0 < d \<Longrightarrow> (k < slotCount a b d) = (a + int k * d < b)"
proof (induction k arbitrary: a)
  case 0
  then show ?case
    using slotCount_zero[of d a b] slotCount_next[of d a b] by (cases "a < b") auto
next
  case (Suc k)
  show ?case
  proof (cases "a < b")
    case True
    then show ?thesis
      using Suc.IH[OF Suc.prems, of "a + d"] slotCount_next[OF Suc.prems True]
      by (simp add: algebra_simps)
  next
    case False
    have "0 \<le> int (Suc k) * d" using Suc.prems by simp
    then show ?thesis using False slotCount_zero[OF Suc.prems False] by linarith
  qed
qed


lemma slotLoop_exit: "\<not> js_lt s e \<Longrightarrow> slotLoop s e d acc = Some acc"
  by (subst slotLoop.simps) simp

lemma slotLoop_step:
  "js_lt s e \<Longrightarrow> slotLoop s e d acc = slotLoop (js_add s d) e d (acc @ [slotLabel s])"
  by (subst slotLoop.simps) simp

lemma slotLoop_pos:
  "0 < d \<Longrightarrow> slotLoop (Fin a) (Fin b) (Fin d) acc =
     Some (acc @ map (\<lambda>k. slotLabel (Fin (a + int k * d))) [0..<slotCount a b d])"
proof (induction n \<equiv> "slotCount a b d" arbitrary: a acc)
  case 0
  then have "\<not> a < b" using slotCount_iff[of d 0 a b] by simp
  then show ?case using 0 by (simp add: slotLoop_exit)
next
  case (Suc n)
  then have ab: "a < b" using slotCount_iff[of d 0 a b] by simp
  from slotCount_next[OF Suc.prems ab] Suc.hyps(2) have n: "n = slotCount (a + d) b d"
    by simp
  have "slotLoop (Fin a) (Fin b) (Fin d) acc =
        slotLoop (Fin (a + d)) (Fin b) (Fin d) (acc @ [slotLabel (Fin a)])"
    using ab by (simp add: slotLoop_step)
  also have "\<dots> = Some ((acc @ [slotLabel (Fin a)]) @
        map (\<lambda>k. slotLabel (Fin (a + d + int k * d))) [0..<slotCount (a + d) b d])"
    using Suc.hyps(1)[OF n Suc.prems] .
  also have "(acc @ [slotLabel (Fin a)]) @
        map (\<lambda>k. slotLabel (Fin (a + d + int k * d))) [0..<slotCount (a + d) b d] =
      acc @ map (\<lambda>k. slotLabel (Fin (a + int k * d))) [0..<slotCount a b d]"
    unfolding slotCount_next[OF Suc.prems ab] map_upt_Suc by (simp add: algebra_simps)
  finally show ?case .
qed

lemma slotLoop_NaN_dur:
  "a < b \<Longrightarrow> slotLoop (Fin a) (Fin b) NaN acc = Some (acc @ [slotLabel (Fin a)])"
  by (simp add: slotLoop_step slotLoop_exit)

lemma slotLoop_diverge_aux:
  assumes "slotLoop s e d acc = Some y"
  shows "\<not> (\<exists>a b k. s = Fin a \<and> e = Fin b \<and> d = Fin k \<and> a < b \<and> k \<le> 0)"
proof (rule slotLoop.raw_induct[where P = "\<lambda>s e d acc y.
    \<not> (\<exists>a b k. s = Fin a \<and> e = Fin b \<and> d = Fin k \<and> a < b \<and> k \<le> 0)", OF _ assms])
  fix f :: "jsnum \<Rightarrow> jsnum \<Rightarrow> jsnum \<Rightarrow> string list \<Rightarrow> string list option"
    and s e d acc y
  assume IH: "\<And>s e d acc y. f s e d acc = Some y \<Longrightarrow>
      \<not> (\<exists>a b k. s = Fin a \<and> e = Fin b \<and> d = Fin k \<and> a < b \<and> k \<le> 0)"
    and eq: "(if js_lt s e then f (js_add s d) e d (acc @ [slotLabel s]) else Some acc) = Some y"
  show "\<not> (\<exists>a b k. s = Fin a \<and> e = Fin b \<and> d = Fin k \<and> a < b \<and> k \<le> 0)"
  proof
    assume "\<exists>a b k. s = Fin a \<and> e = Fin b \<and> d = Fin k \<and> a < b \<and> k \<le> 0"
    then obtain a b k where *: "s = Fin a" "e = Fin b" "d = Fin k" "a < b" "k \<le> 0"
      by blast
    with eq have **: "f (Fin (a + k)) (Fin b) (Fin k) (acc @ [slotLabel (Fin a)]) = Some y"
      by simp
    have "a + k < b" using * by simp
    with IH[OF **] * show False by blast
  qed
qed

lemma slotLoop_diverge:
  "a < b \<Longrightarrow> k \<le> 0 \<Longrightarrow> slotLoop (Fin a) (Fin b) (Fin k) acc = None"
  using slotLoop_diverge_aux [of "Fin a" "Fin b" "Fin k" acc]
  by (cases "slotLoop (Fin a) (Fin b) (Fin k) acc") auto








section \<open>Labels determine their minute\<close>


















section \<open>Sessions in sequence\<close>

lemma slotLoop_acc: "slotLoop s e d acc = map_option ((@) acc) (slotLoop s e d [])"
proof (cases "js_lt s e")
  case False
  then show ?thesis by (simp add: slotLoop_exit)
next
  case True
  then obtain a b where ab: "s = Fin a" "e = Fin b" "a < b"
    by (cases s; cases e) simp_all
  show ?thesis
  proof (cases d)
    case NaN
    with ab show ?thesis by (simp add: slotLoop_NaN_dur)
  next
    case (Fin k)
    show ?thesis
    proof (cases "0 < k")
      case True
      with ab Fin show ?thesis by (simp add: slotLoop_pos)
    next
      case False
      then have "k \<le> 0" by simp
      with ab Fin show ?thesis by (simp add: slotLoop_diverge)
    qed
  qed
qed

lemma sessionSlots_acc: "sessionSlots s acc = map_option ((@) acc) (sessionSlots s [])"
  unfolding sessionSlots_def by (rule slotLoop_acc)


lemma forEachSession_concat:
  "list_all2 (\<lambda>s r. sessionSlots s [] = Some r) ss rs \<Longrightarrow>
     forEachSession ss acc = Some (acc @ concat rs)"
proof (induction ss rs arbitrary: acc rule: list_all2_induct)
  case Nil
  show ?case by simp
next
  case (Cons s ss r rs)
  have "sessionSlots s acc = Some (acc @ r)"
    using Cons.hyps(1) sessionSlots_acc[of s acc] by simp
  then show ?case using Cons.IH[of "acc @ r"] by simp
qed



lemma parseMinutes_0930: "parseMinutes ''09:30'' = Fin 570"
  by (simp add: parseMinutes_def Number_str_def trim_def isWhite_def unsignedVal_def digitVal_def)

lemma parseMinutes_1030: "parseMinutes ''10:30'' = Fin 630"
  by (simp add: parseMinutes_def Number_str_def trim_def isWhite_def unsignedVal_def digitVal_def)

section \<open>Finding and membership\<close>

lemma array_includes_set: "array_includes xs x = (x \<in> set xs)"
  by (induction xs) auto

lemma array_find_None: "(array_find p xs = None) = (\<forall>x \<in> set xs. \<not> p x)"
  by (induction xs) auto

lemma array_find_Some:
  "(array_find p xs = Some x) =
     (\<exists>i < length xs. xs ! i = x \<and> p x \<and> (\<forall>j < i. \<not> p (xs ! j)))"
proof (induction xs)
  case Nil
  show ?case by simp
next
  case (Cons y ys)
  show ?case
  proof (cases "p y")
    case True
    have "(\<exists>i < length (y # ys). (y # ys) ! i = x \<and> p x \<and> (\<forall>j < i. \<not> p ((y # ys) ! j)))
        = (y = x)"
    proof
      assume "\<exists>i < length (y # ys). (y # ys) ! i = x \<and> p x \<and> (\<forall>j < i. \<not> p ((y # ys) ! j))"
      then obtain i where i: "(y # ys) ! i = x" "\<forall>j < i. \<not> p ((y # ys) ! j)" by blast
      from i(2) True have "i = 0" by (cases i) auto
      with i(1) show "y = x" by simp
    next
      assume "y = x"
      with True show "\<exists>i < length (y # ys). (y # ys) ! i = x \<and> p x \<and>
          (\<forall>j < i. \<not> p ((y # ys) ! j))"
        by (intro exI[of _ 0]) simp
    qed
    with True show ?thesis by simp
  next
    case False
    have "(\<exists>i < length (y # ys). (y # ys) ! i = x \<and> p x \<and> (\<forall>j < i. \<not> p ((y # ys) ! j)))
        = (\<exists>i < length ys. ys ! i = x \<and> p x \<and> (\<forall>j < i. \<not> p (ys ! j)))"
    proof
      assume "\<exists>i < length (y # ys). (y # ys) ! i = x \<and> p x \<and> (\<forall>j < i. \<not> p ((y # ys) ! j))"
      then obtain i where i: "i < length (y # ys)" "(y # ys) ! i = x" "p x"
        "\<forall>j < i. \<not> p ((y # ys) ! j)" by blast
      from i(2,3) False obtain k where k: "i = Suc k" by (cases i) auto
      have "\<forall>j < k. \<not> p (ys ! j)"
      proof (intro allI impI)
        fix j assume "j < k"
        then have "Suc j < i" using k by simp
        with i(4) have "\<not> p ((y # ys) ! Suc j)" by blast
        then show "\<not> p (ys ! j)" by simp
      qed
      with i k show "\<exists>i < length ys. ys ! i = x \<and> p x \<and> (\<forall>j < i. \<not> p (ys ! j))"
        by (intro exI[of _ k]) simp
    next
      assume "\<exists>i < length ys. ys ! i = x \<and> p x \<and> (\<forall>j < i. \<not> p (ys ! j))"
      then obtain k where k: "k < length ys" "ys ! k = x" "p x" "\<forall>j < k. \<not> p (ys ! j)"
        by blast
      have "\<forall>j < Suc k. \<not> p ((y # ys) ! j)"
      proof (intro allI impI)
        fix j assume "j < Suc k"
        then show "\<not> p ((y # ys) ! j)" using False k(4) by (cases j) auto
      qed
      with k show "\<exists>i < length (y # ys). (y # ys) ! i = x \<and> p x \<and>
          (\<forall>j < i. \<not> p ((y # ys) ! j))"
        by (intro exI[of _ "Suc k"]) simp
    qed
    with False Cons.IH show ?thesis by simp
  qed
qed

lemma annotateAvailability_nth:
  assumes "i < length g"
  shows "time (annotateAvailability g b ! i) = g ! i"
    and "(status (annotateAvailability g b ! i) = ''booked'') = (g ! i \<in> set b)"
    and "(status (annotateAvailability g b ! i) = ''available'') = (g ! i \<notin> set b)"
  using assms by (simp_all add: annotateAvailability_def array_includes_set)

lemma annotateAvailability_times: "map time (annotateAvailability g b) = g"
  by (simp add: annotateAvailability_def comp_def)


section \<open>What one session generates\<close>



section \<open>Sessions outside the contract\<close>




section \<open>Termination of the generation\<close>




section \<open>Marking the booked slots\<close>

text \<open>
  Claim C4. For every list of generated slot times and every list of booked start times,
  the marked list has one entry for each generated time, in the same position and with
  that time, and its status is \<open>booked\<close> exactly when the time is one of the booked
  start times as a string, character by character, and \<open>available\<close> exactly when it is
  not.
\<close>

theorem annotateAvailability_booked_iff:
  "length (annotateAvailability g b) = length g
   \<and> (\<forall>i < length g.
        time (annotateAvailability g b ! i) = g ! i
      \<and> (status (annotateAvailability g b ! i) = ''booked'') = (g ! i \<in> set b)
      \<and> (status (annotateAvailability g b ! i) = ''available'') = (g ! i \<notin> set b))"
proof -
  have "length (annotateAvailability g b) = length g"
    by (simp add: annotateAvailability_def)
  then show ?thesis using annotateAvailability_nth[of _ g b] by blast
qed

text \<open>The booked time \<open>9:00\<close> does not mark the slot \<open>09:00\<close>.\<close>

theorem annotateAvailability_booked_iff_witness:
  "status (annotateAvailability [''09:00'', ''09:30''] [''9:00'', ''09:30''] ! 0) = ''available''
   \<and> status (annotateAvailability [''09:00'', ''09:30''] [''9:00'', ''09:30''] ! 1) = ''booked''
   \<and> time (annotateAvailability [''09:00'', ''09:30''] [''9:00'', ''09:30''] ! 1) = ''09:30''"
proof -
  have "(0 :: nat) < length [''09:00'', ''09:30'']" and "(1 :: nat) < length [''09:00'', ''09:30'']"
    by simp_all
  with annotateAvailability_booked_iff[of "[''09:00'', ''09:30'']" "[''9:00'', ''09:30'']"]
  have "(status (annotateAvailability [''09:00'', ''09:30''] [''9:00'', ''09:30''] ! 0)
         = ''available'') = ([''09:00'', ''09:30''] ! 0 \<notin> set [''9:00'', ''09:30''])"
    and "(status (annotateAvailability [''09:00'', ''09:30''] [''9:00'', ''09:30''] ! 1)
         = ''booked'') = ([''09:00'', ''09:30''] ! 1 \<in> set [''9:00'', ''09:30''])"
    and "time (annotateAvailability [''09:00'', ''09:30''] [''9:00'', ''09:30''] ! 1)
         = [''09:00'', ''09:30''] ! 1"
    by blast+
  then show ?thesis by simp
qed

section \<open>A date on which the doctor does not work\<close>

text \<open>
  Claim C5. When the request has a date, the doctor is found and no entry of the template
  is a working day for the weekday of the date, the handler answers with status 200,
  \<open>success\<close> true, the empty list of slots and the message that the doctor is not
  available on the selected date. An answer given when a day was resolved is never this
  answer: when it is successful it has no message and carries the list of slots with its
  length as \<open>totalSlots\<close>, also when every slot is booked.
\<close>

theorem not_available_response:
  assumes "dateParam = Some dt" and "dt \<noteq> []"
    and "resolveDaySchedule doc dayIndex = None"
  shows "getDoctorSlotsForDate dateParam (Resolved (Some doc)) dayIndex bookedFound =
           Some \<lparr>statusCode = 200, success = True,
             message = Some ''Doctor not available on selected date'', totalSlots = None,
             slots = Some []\<rparr>
       \<and> (\<forall>doc' dayIndex' bookedFound' r.
            resolveDaySchedule doc' dayIndex' \<noteq> None \<longrightarrow>
            getDoctorSlotsForDate dateParam (Resolved (Some doc')) dayIndex' bookedFound'
              = Some r \<longrightarrow>
            r \<noteq> \<lparr>statusCode = 200, success = True,
                   message = Some ''Doctor not available on selected date'',
                   totalSlots = None, slots = Some []\<rparr>
            \<and> (success r \<longrightarrow> message r = None \<and>
                 (\<exists>sl. slots r = Some sl \<and> totalSlots r = Some (length sl))))"
proof -
  have "getDoctorSlotsForDate dateParam (Resolved (Some doc)) dayIndex bookedFound =
      Some notAvailable"
    using assms by (simp add: getDoctorSlotsForDate_def)
  moreover have "r \<noteq> notAvailable \<and> (success r \<longrightarrow> message r = None \<and>
        (\<exists>sl. slots r = Some sl \<and> totalSlots r = Some (length sl)))"
    if "resolveDaySchedule doc' dayIndex' \<noteq> None"
      and "getDoctorSlotsForDate dateParam (Resolved (Some doc')) dayIndex' bookedFound' = Some r"
    for doc' dayIndex' bookedFound' r
    using that assms(1,2)
    by (auto simp: getDoctorSlotsForDate_def notAvailable_def serverError_def Let_def
        split: option.splits awaited.splits)
  ultimately show ?thesis unfolding notAvailable_def by blast
qed

text \<open>The template has a working Monday and a Tuesday that is not a working day; the
  date falls on a Tuesday.\<close>

theorem not_available_response_witness:
  "getDoctorSlotsForDate (Some ''2024-01-02'')
     (Resolved (Some \<lparr>scheduleTemplate = Some
        [\<lparr>dayOfWeek = Fin 1, isWorking = True,
            sessions = [\<lparr>startTime = ''09:00'', endTime = ''10:00'',
              slotDurationMinutes = Fin 20\<rparr>]\<rparr>,
         \<lparr>dayOfWeek = Fin 2, isWorking = False, sessions = []\<rparr>]\<rparr>))
     (Fin 2) (Resolved [])
   = Some \<lparr>statusCode = 200, success = True,
       message = Some ''Doctor not available on selected date'', totalSlots = None,
       slots = Some []\<rparr>"
proof -
  let ?doc = "\<lparr>scheduleTemplate = Some
        [\<lparr>dayOfWeek = Fin 1, isWorking = True,
            sessions = [\<lparr>startTime = ''09:00'', endTime = ''10:00'',
              slotDurationMinutes = Fin 20\<rparr>]\<rparr>,
         \<lparr>dayOfWeek = Fin 2, isWorking = False, sessions = []\<rparr>]\<rparr>"
  have h: "resolveDaySchedule ?doc (Fin 2) = None"
    by (simp add: resolveDaySchedule_def worksOn_def)
  have d: "''2024-01-02'' \<noteq> []" by simp
  from not_available_response[OF refl d h, of "Resolved []"] show ?thesis by blast
qed

section \<open>Resolving the day of the week\<close>

text \<open>
  Claim C6. For every doctor record and every weekday index (the weekday that the platform
  computes for the date, 0 for Sunday to 6 for Saturday), the resolved day is the first
  entry of the schedule template whose \<open>dayOfWeek\<close> equals the index and whose
  \<open>isWorking\<close> is true: every entry before it fails one of the two conditions. There
  is no resolved day exactly when no entry satisfies both, or the template is absent.
  Several entries for the same weekday change nothing: the first one wins.
\<close>

theorem resolveDaySchedule_first_match:
  "(resolveDaySchedule doc (Fin k) = Some d) =
     (\<exists>template i. scheduleTemplate doc = Some template \<and> i < length template \<and>
        template ! i = d \<and> dayOfWeek d = Fin k \<and> isWorking d \<and>
        (\<forall>j < i. \<not> (dayOfWeek (template ! j) = Fin k \<and> isWorking (template ! j))))
   \<and> (resolveDaySchedule doc (Fin k) = None) =
     (\<forall>template. scheduleTemplate doc = Some template \<longrightarrow>
        (\<forall>e \<in> set template. \<not> (dayOfWeek e = Fin k \<and> isWorking e)))
   \<and> resolveDaySchedule doc NaN = None"
proof -
  have "resolveDaySchedule doc NaN = None"
    by (cases "scheduleTemplate doc")
      (simp_all add: resolveDaySchedule_def array_find_None worksOn_def)
  moreover
  have w: "worksOn (Fin k) e = (dayOfWeek e = Fin k \<and> isWorking e)" for e
    by (cases "dayOfWeek e") (auto simp: worksOn_def)
  have "(resolveDaySchedule doc (Fin k) = Some d) =
     (\<exists>template i. scheduleTemplate doc = Some template \<and> i < length template \<and>
        template ! i = d \<and> dayOfWeek d = Fin k \<and> isWorking d \<and>
        (\<forall>j < i. \<not> (dayOfWeek (template ! j) = Fin k \<and> isWorking (template ! j))))
   \<and> (resolveDaySchedule doc (Fin k) = None) =
     (\<forall>template. scheduleTemplate doc = Some template \<longrightarrow>
        (\<forall>e \<in> set template. \<not> (dayOfWeek e = Fin k \<and> isWorking e)))"
  proof (cases "scheduleTemplate doc")
    case None
    then show ?thesis by (simp add: resolveDaySchedule_def)
  next
    case (Some template)
    then show ?thesis
      by (simp add: resolveDaySchedule_def array_find_Some array_find_None w)
  qed
  ultimately show ?thesis by simp
qed

text \<open>Two working entries for Tuesday: the first is the resolved day.\<close>

theorem resolveDaySchedule_first_match_witness:
  "resolveDaySchedule
     \<lparr>scheduleTemplate = Some
        [\<lparr>dayOfWeek = Fin 1, isWorking = True, sessions = []\<rparr>,
         \<lparr>dayOfWeek = Fin 2, isWorking = False, sessions = []\<rparr>,
         \<lparr>dayOfWeek = Fin 2, isWorking = True,
            sessions = [\<lparr>startTime = ''09:00'', endTime = ''10:00'',
              slotDurationMinutes = Fin 20\<rparr>]\<rparr>,
         \<lparr>dayOfWeek = Fin 2, isWorking = True, sessions = []\<rparr>]\<rparr>
     (Fin 2)
   = Some \<lparr>dayOfWeek = Fin 2, isWorking = True,
        sessions = [\<lparr>startTime = ''09:00'', endTime = ''10:00'',
          slotDurationMinutes = Fin 20\<rparr>]\<rparr>
   \<and> resolveDaySchedule
     \<lparr>scheduleTemplate = Some
        [\<lparr>dayOfWeek = Fin 1, isWorking = True, sessions = []\<rparr>,
         \<lparr>dayOfWeek = Fin 2, isWorking = False, sessions = []\<rparr>]\<rparr>
     (Fin 2) = None"
proof -
  let ?d = "\<lparr>dayOfWeek = Fin 2, isWorking = True,
        sessions = [\<lparr>startTime = ''09:00'', endTime = ''10:00'',
          slotDurationMinutes = Fin 20\<rparr>]\<rparr>"
  let ?t = "[\<lparr>dayOfWeek = Fin 1, isWorking = True, sessions = []\<rparr>,
         \<lparr>dayOfWeek = Fin 2, isWorking = False, sessions = []\<rparr>, ?d,
         \<lparr>dayOfWeek = Fin 2, isWorking = True, sessions = []\<rparr>]"
  let ?u = "[\<lparr>dayOfWeek = Fin 1, isWorking = True, sessions = []\<rparr>,
         \<lparr>dayOfWeek = Fin 2, isWorking = False, sessions = []\<rparr>]"
  have "\<forall>j < 2. \<not> (dayOfWeek (?t ! j) = Fin 2 \<and> isWorking (?t ! j))"
    by (simp add: less_Suc_eq numeral_2_eq_2)
  then have "\<exists>template i. scheduleTemplate \<lparr>scheduleTemplate = Some ?t\<rparr> = Some template \<and>
      i < length template \<and> template ! i = ?d \<and> dayOfWeek ?d = Fin 2 \<and> isWorking ?d \<and>
      (\<forall>j < i. \<not> (dayOfWeek (template ! j) = Fin 2 \<and> isWorking (template ! j)))"
    by (intro exI[of _ ?t] exI[of _ 2]) simp
  then have 1: "resolveDaySchedule \<lparr>scheduleTemplate = Some ?t\<rparr> (Fin 2) = Some ?d"
    using resolveDaySchedule_first_match[of "\<lparr>scheduleTemplate = Some ?t\<rparr>" 2 ?d] by blast
  have "\<forall>template. scheduleTemplate \<lparr>scheduleTemplate = Some ?u\<rparr> = Some template \<longrightarrow>
      (\<forall>e \<in> set template. \<not> (dayOfWeek e = Fin 2 \<and> isWorking e))"
    by simp
  then have 2: "resolveDaySchedule \<lparr>scheduleTemplate = Some ?u\<rparr> (Fin 2) = None"
    using resolveDaySchedule_first_match[of "\<lparr>scheduleTemplate = Some ?u\<rparr>" 2] by blast
  from 1 2 show ?thesis by (intro conjI)
qed

section \<open>Several sessions\<close>

text \<open>
  Claim C7. The slots of a day are the slots of its sessions one after the other, in the
  order of the sessions, with nothing removed and nothing sorted; marking the slots keeps
  their order. With the sessions 09:00 to 12:00 and 14:00 to 16:00, both by 30 minutes,
  and the booked times 09:30 and 15:00, the handler answers the ten slots 09:00, 09:30
  (booked), 10:00, 10:30, 11:00, 11:30, 14:00, 14:30, 15:00 (booked), 15:30.
\<close>

theorem slots_concatenated_in_order:
  assumes "list_all2 (\<lambda>s r. sessionSlots s [] = Some r) (sessions day) rs"
  shows "generateSlots day = Some (concat rs)
       \<and> map time (annotateAvailability (concat rs) bookedTimes) = concat rs
       \<and> getDoctorSlotsForDate (Some ''2024-01-01'')
           (Resolved (Some \<lparr>scheduleTemplate = Some [\<lparr>dayOfWeek = Fin 1, isWorking = True,
              sessions = [\<lparr>startTime = ''09:00'', endTime = ''12:00'',
                  slotDurationMinutes = Fin 30\<rparr>,
                \<lparr>startTime = ''14:00'', endTime = ''16:00'',
                  slotDurationMinutes = Fin 30\<rparr>]\<rparr>]\<rparr>))
           (Fin 1)
           (Resolved [\<lparr>apptStartTime = ''09:30''\<rparr>, \<lparr>apptStartTime = ''15:00''\<rparr>])
         = Some \<lparr>statusCode = 200, success = True, message = None, totalSlots = Some 10,
             slots = Some
               [\<lparr>time = ''09:00'', status = ''available''\<rparr>,
                \<lparr>time = ''09:30'', status = ''booked''\<rparr>,
                \<lparr>time = ''10:00'', status = ''available''\<rparr>,
                \<lparr>time = ''10:30'', status = ''available''\<rparr>,
                \<lparr>time = ''11:00'', status = ''available''\<rparr>,
                \<lparr>time = ''11:30'', status = ''available''\<rparr>,
                \<lparr>time = ''14:00'', status = ''available''\<rparr>,
                \<lparr>time = ''14:30'', status = ''available''\<rparr>,
                \<lparr>time = ''15:00'', status = ''booked''\<rparr>,
                \<lparr>time = ''15:30'', status = ''available''\<rparr>]\<rparr>"
proof -
  have "generateSlots day = Some (concat rs)"
    using forEachSession_concat[OF assms, of "[]"] by (simp add: generateSlots_def)
  moreover have "map time (annotateAvailability (concat rs) bookedTimes) = concat rs"
    by (rule annotateAvailability_times)
  moreover have "getDoctorSlotsForDate (Some ''2024-01-01'')
           (Resolved (Some \<lparr>scheduleTemplate = Some [\<lparr>dayOfWeek = Fin 1, isWorking = True,
              sessions = [\<lparr>startTime = ''09:00'', endTime = ''12:00'',
                  slotDurationMinutes = Fin 30\<rparr>,
                \<lparr>startTime = ''14:00'', endTime = ''16:00'',
                  slotDurationMinutes = Fin 30\<rparr>]\<rparr>]\<rparr>))
           (Fin 1)
           (Resolved [\<lparr>apptStartTime = ''09:30''\<rparr>, \<lparr>apptStartTime = ''15:00''\<rparr>])
         = Some \<lparr>statusCode = 200, success = True, message = None, totalSlots = Some 10,
             slots = Some
               [\<lparr>time = ''09:00'', status = ''available''\<rparr>,
                \<lparr>time = ''09:30'', status = ''booked''\<rparr>,
                \<lparr>time = ''10:00'', status = ''available''\<rparr>,
                \<lparr>time = ''10:30'', status = ''available''\<rparr>,
                \<lparr>time = ''11:00'', status = ''available''\<rparr>,
                \<lparr>time = ''11:30'', status = ''available''\<rparr>,
                \<lparr>time = ''14:00'', status = ''available''\<rparr>,
                \<lparr>time = ''14:30'', status = ''available''\<rparr>,
                \<lparr>time = ''15:00'', status = ''booked''\<rparr>,
                \<lparr>time = ''15:30'', status = ''available''\<rparr>]\<rparr>"
    by code_simp
  ultimately show ?thesis by (intro conjI)
qed

text \<open>Two overlapping sessions, the later one listed first: the slots come out in the
  order of the sessions and 09:30 appears twice.\<close>

theorem slots_concatenated_in_order_witness:
  "generateSlots \<lparr>dayOfWeek = Fin 1, isWorking = True,
      sessions = [\<lparr>startTime = ''09:30'', endTime = ''10:30'', slotDurationMinutes = Fin 30\<rparr>,
        \<lparr>startTime = ''09:00'', endTime = ''10:00'', slotDurationMinutes = Fin 30\<rparr>]\<rparr>
     = Some [''09:30'', ''10:00'', ''09:00'', ''09:30'']
   \<and> map time (annotateAvailability [''09:30'', ''10:00'', ''09:00'', ''09:30''] [''09:30''])
     = [''09:30'', ''10:00'', ''09:00'', ''09:30'']"
proof -
  let ?s1 = "\<lparr>startTime = ''09:30'', endTime = ''10:30'', slotDurationMinutes = Fin 30\<rparr>"
  let ?s2 = "\<lparr>startTime = ''09:00'', endTime = ''10:00'', slotDurationMinutes = Fin 30\<rparr>"
  let ?day = "\<lparr>dayOfWeek = Fin 1, isWorking = True, sessions = [?s1, ?s2]\<rparr>"
  have r1: "sessionSlots ?s1 [] = Some [''09:30'', ''10:00'']" by code_simp
  have r2: "sessionSlots ?s2 [] = Some [''09:00'', ''09:30'']" by code_simp
  have h: "list_all2 (\<lambda>s r. sessionSlots s [] = Some r) (sessions ?day)
      [[''09:30'', ''10:00''], [''09:00'', ''09:30'']]"
    using r1 r2 by simp
  from slots_concatenated_in_order[OF h, of "[''09:30'']"] show ?thesis by simp
qed

section \<open>The answer depends on the inputs only\<close>



section \<open>The filters of the search\<close>

lemma setWhenTruthy_other: "k \<noteq> key \<Longrightarrow> setWhenTruthy key p f k = f k"
  by (simp add: setWhenTruthy_def split: option.splits)

lemma setWhenTruthy_key:
  "setWhenTruthy key p f key = (case p of None \<Rightarrow> f key
     | Some v \<Rightarrow> if v \<noteq> [] then Some (StrV v) else f key)"
  by (simp add: setWhenTruthy_def split: option.splits)

lemma setConsultationMode_other:
  "k \<noteq> ''consultationModes.telemedicine'' \<Longrightarrow> k \<noteq> ''consultationModes.inClinic'' \<Longrightarrow>
     setConsultationMode ct f k = f k"
  by (simp add: setConsultationMode_def)

lemma setEmergency_other: "k \<noteq> ''supportsEmergency'' \<Longrightarrow> setEmergency se f k = f k"
  by (simp add: setEmergency_def)

lemma setNear_other: "k \<noteq> ''clinic.location'' \<Longrightarrow> setNear la ln r f k = f k"
  by (simp add: setNear_def split: option.splits)

lemma setNear_key:
  "(setNear la ln r f ''clinic.location'' \<noteq> f ''clinic.location'') \<Longrightarrow>
     truthy la \<and> truthy ln \<and> truthy r"
  by (cases la; cases ln; cases r) (auto simp: setNear_def split: if_splits)

lemma searchFilters_status:
  "searchFilters q ''status'' = Some (StrV ''active'')"
  by (simp add: searchFilters_def setNear_other setEmergency_other setConsultationMode_other
      setWhenTruthy_other)

lemma searchFilters_accepting:
  "searchFilters q ''isAcceptingNewPatients'' = Some (BoolV True)"
  by (simp add: searchFilters_def setNear_other setEmergency_other setConsultationMode_other
      setWhenTruthy_other)

lemma searchFilters_specialties:
  "searchFilters q ''specialties'' =
     (case specialty q of None \<Rightarrow> None | Some v \<Rightarrow> if v \<noteq> [] then Some (StrV v) else None)"
  by (simp add: searchFilters_def setNear_other setEmergency_other setConsultationMode_other
      setWhenTruthy_other setWhenTruthy_key split: option.splits)

lemma searchFilters_city:
  "searchFilters q ''clinic.city'' =
     (case city q of None \<Rightarrow> None | Some v \<Rightarrow> if v \<noteq> [] then Some (StrV v) else None)"
  by (simp add: searchFilters_def setNear_other setEmergency_other setConsultationMode_other
      setWhenTruthy_other setWhenTruthy_key split: option.splits)

lemma searchFilters_telemedicine:
  "searchFilters q ''consultationModes.telemedicine'' =
     (if consultationType q = Some ''telemedicine'' then Some (BoolV True) else None)"
  by (simp add: searchFilters_def setNear_other setEmergency_other setConsultationMode_def
      setWhenTruthy_other)

lemma searchFilters_inClinic:
  "searchFilters q ''consultationModes.inClinic'' =
     (if consultationType q = Some ''inClinic'' then Some (BoolV True) else None)"
  by (simp add: searchFilters_def setNear_other setEmergency_other setConsultationMode_def
      setWhenTruthy_other)

lemma searchFilters_emergency:
  "searchFilters q ''supportsEmergency'' =
     (if supportsEmergency q = Some ''true'' then Some (BoolV True) else None)"
  by (simp add: searchFilters_def setNear_other setEmergency_def setConsultationMode_other
      setWhenTruthy_other)

lemma searchFilters_location:
  "searchFilters q ''clinic.location'' \<noteq> None \<Longrightarrow>
     truthy (lat q) \<and> truthy (lng q) \<and> truthy (radiusKm q)"
proof -
  assume a: "searchFilters q ''clinic.location'' \<noteq> None"
  let ?f = "setEmergency (supportsEmergency q)
         (setConsultationMode (consultationType q)
           (setWhenTruthy ''clinic.city'' (city q)
             (setWhenTruthy ''specialties'' (specialty q)
               [''status'' \<mapsto> StrV ''active'',
                ''isAcceptingNewPatients'' \<mapsto> BoolV True])))"
  have "?f ''clinic.location'' = None"
    by (simp add: setEmergency_other setConsultationMode_other setWhenTruthy_other)
  with a have "setNear (lat q) (lng q) (radiusKm q) ?f ''clinic.location'' \<noteq>
      ?f ''clinic.location''" by (simp add: searchFilters_def)
  then show ?thesis by (rule setNear_key)
qed

text \<open>
  Claim C9. Whatever parameters the search receives, the filter object holds
  \<open>status = "active"\<close> and \<open>isAcceptingNewPatients = true\<close>. The specialty and city
  filters are present only when their parameter is present (and not empty) and then carry
  its value, the emergency filter is present exactly when \<open>supportsEmergency\<close> is the
  string \<open>true\<close>, each consultation-mode filter exactly when \<open>consultationType\<close> is its
  name, and the location filter only when \<open>lat\<close>, \<open>lng\<close> and \<open>radiusKm\<close> are all
  present. The \<open>date\<close> parameter does not change the filter object.
\<close>

theorem searchFilters_invariant:
  "searchFilters q ''status'' = Some (StrV ''active'')
   \<and> searchFilters q ''isAcceptingNewPatients'' = Some (BoolV True)
   \<and> (searchFilters q ''specialties'' \<noteq> None \<longrightarrow>
        specialty q \<noteq> None \<and> searchFilters q ''specialties'' = map_option StrV (specialty q))
   \<and> (searchFilters q ''clinic.city'' \<noteq> None \<longrightarrow>
        city q \<noteq> None \<and> searchFilters q ''clinic.city'' = map_option StrV (city q))
   \<and> (searchFilters q ''supportsEmergency'' \<noteq> None) = (supportsEmergency q = Some ''true'')
   \<and> (searchFilters q ''consultationModes.telemedicine'' \<noteq> None) =
        (consultationType q = Some ''telemedicine'')
   \<and> (searchFilters q ''consultationModes.inClinic'' \<noteq> None) =
        (consultationType q = Some ''inClinic'')
   \<and> (searchFilters q ''clinic.location'' \<noteq> None \<longrightarrow>
        lat q \<noteq> None \<and> lng q \<noteq> None \<and> radiusKm q \<noteq> None)
   \<and> searchFilters (q\<lparr>date := dt\<rparr>) = searchFilters q"
proof -
  have "searchFilters (q\<lparr>date := dt\<rparr>) = searchFilters q"
    by (simp add: searchFilters_def)
  moreover
  have "searchFilters q ''specialties'' \<noteq> None \<longrightarrow>
        specialty q \<noteq> None \<and> searchFilters q ''specialties'' = map_option StrV (specialty q)"
    by (simp add: searchFilters_specialties split: option.splits)
  moreover have "searchFilters q ''clinic.city'' \<noteq> None \<longrightarrow>
        city q \<noteq> None \<and> searchFilters q ''clinic.city'' = map_option StrV (city q)"
    by (simp add: searchFilters_city split: option.splits)
  moreover have "(searchFilters q ''supportsEmergency'' \<noteq> None) =
      (supportsEmergency q = Some ''true'')"
    by (simp add: searchFilters_emergency)
  moreover have "(searchFilters q ''consultationModes.telemedicine'' \<noteq> None) =
        (consultationType q = Some ''telemedicine'')"
    by (simp add: searchFilters_telemedicine)
  moreover have "(searchFilters q ''consultationModes.inClinic'' \<noteq> None) =
        (consultationType q = Some ''inClinic'')"
    by (simp add: searchFilters_inClinic)
  moreover have "searchFilters q ''clinic.location'' \<noteq> None \<longrightarrow>
        lat q \<noteq> None \<and> lng q \<noteq> None \<and> radiusKm q \<noteq> None"
  proof
    assume "searchFilters q ''clinic.location'' \<noteq> None"
    from searchFilters_location[OF this]
    show "lat q \<noteq> None \<and> lng q \<noteq> None \<and> radiusKm q \<noteq> None"
      by (cases "lat q"; cases "lng q"; cases "radiusKm q") simp_all
  qed
  ultimately show ?thesis
    using searchFilters_status[of q] searchFilters_accepting[of q] by (intro conjI)
qed

text \<open>A search for cardiologists with \<open>supportsEmergency=TRUE\<close> and
  \<open>consultationType=inclinic\<close>: neither spelling adds a filter.\<close>

theorem searchFilters_invariant_witness:
  "searchFilters \<lparr>specialty = Some ''cardiology'', city = None,
       consultationType = Some ''inclinic'', supportsEmergency = Some ''TRUE'',
       lat = Some ''12.9'', lng = None, radiusKm = Some ''5'', date = None\<rparr> ''status''
     = Some (StrV ''active'')
   \<and> searchFilters \<lparr>specialty = Some ''cardiology'', city = None,
       consultationType = Some ''inclinic'', supportsEmergency = Some ''TRUE'',
       lat = Some ''12.9'', lng = None, radiusKm = Some ''5'', date = None\<rparr>
       ''supportsEmergency'' = None
   \<and> searchFilters \<lparr>specialty = Some ''cardiology'', city = None,
       consultationType = Some ''inclinic'', supportsEmergency = Some ''TRUE'',
       lat = Some ''12.9'', lng = None, radiusKm = Some ''5'', date = None\<rparr>
       ''consultationModes.inClinic'' = None
   \<and> searchFilters \<lparr>specialty = Some ''cardiology'', city = None,
       consultationType = Some ''inclinic'', supportsEmergency = Some ''TRUE'',
       lat = Some ''12.9'', lng = None, radiusKm = Some ''5'', date = None\<rparr>
       ''clinic.location'' = None"
proof -
  let ?q = "\<lparr>specialty = Some ''cardiology'', city = None,
       consultationType = Some ''inclinic'', supportsEmergency = Some ''TRUE'',
       lat = Some ''12.9'', lng = None, radiusKm = Some ''5'', date = None\<rparr>"
  note w = searchFilters_invariant[of ?q]
  from w have "searchFilters ?q ''status'' = Some (StrV ''active'')" by blast
  moreover from w have "(searchFilters ?q ''supportsEmergency'' \<noteq> None) =
      (supportsEmergency ?q = Some ''true'')" by blast
  then have "searchFilters ?q ''supportsEmergency'' = None" by simp
  moreover from w have "(searchFilters ?q ''consultationModes.inClinic'' \<noteq> None) =
      (consultationType ?q = Some ''inClinic'')" by blast
  then have "searchFilters ?q ''consultationModes.inClinic'' = None" by simp
  moreover from w have "searchFilters ?q ''clinic.location'' \<noteq> None \<longrightarrow>
        lat ?q \<noteq> None \<and> lng ?q \<noteq> None \<and> radiusKm ?q \<noteq> None" by blast
  then have "searchFilters ?q ''clinic.location'' = None" by simp
  ultimately show ?thesis by (intro conjI)
qed

section \<open>The slots of one session are in increasing order\<close>



end
